theory Spec2Isabelle
  imports Main
begin

section \<open>Data model\<close>

text \<open>
  The repository is one JavaScript module. Its default export \<open>callsites()\<close> saves the
  value of the global slot \<open>Error.prepareStackTrace\<close>, installs the module-level function
  \<open>prepareStackTraceHandler\<close> there, reads \<open>new Error().stack\<close>, and restores the saved
  value in a \<open>finally\<close> block. The benchmark report quotes the original variant, which
  installs a closure created on every call and removes the first element with
  \<open>slice(1)\<close>.

  A call-site descriptor is a value of the host runtime; the module only passes it on.
  It is modelled by the values of the accessors the specification names.
\<close>

record callsite =
  getFunctionName :: "string option"
  getFileName :: "string option"
  getLineNumber :: "nat option"
  getColumnNumber :: "nat option"

text \<open>Objects of the JavaScript heap (arrays, closures) are identified by their address.\<close>

type_synonym addr = nat

text \<open>
  The values the slot \<open>Error.prepareStackTrace\<close> can hold, compared by identity:
  nothing (\<open>undefined\<close>), the module's one \<open>prepareStackTraceHandler\<close>, a closure
  created by a call of the original variant (identified by the address of the closure),
  or any other value of the embedding program.
\<close>

datatype hookval = NoHook | Handler | Closure addr | Foreign nat

text \<open>
  Exceptions: the \<open>TypeError\<close> JavaScript raises when \<open>shift\<close> or \<open>slice\<close> is called on
  something that is not an array, and the failures of the host runtime itself.
\<close>

datatype exn = TypeError | HostFailure nat

text \<open>
  The two ways the host's stack-capture facility can let a call down, in the words of
  the specification "fails or is unavailable": it raises an exception while it
  materialises the stack, or it captures no stack at all, so that it never calls the
  installed hook and the \<open>stack\<close> property is \<open>undefined\<close>. The latter is what the host does
  when \<open>Error.stackTraceLimit\<close> holds a value that is not a number.
\<close>

datatype hostfault = Raises exn | Unavailable

text \<open>
  The value of the \<open>stack\<close> property: a reference to an array of call-site descriptors
  (what the module's hooks return), \<open>undefined\<close> (when the host captured no stack), or a
  value the module neither produces nor inspects (the default formatted string, the
  result of a foreign hook).
\<close>

datatype jsval = ArrayRef addr | Undefined | Opaque

text \<open>
  The global state the module runs in: the two properties of the \<open>Error\<close> constructor
  that decide what \<open>stack\<close> yields, the heap of arrays, the bindings captured by closures
  (the variable \<open>result\<close> of the original variant, at the address of the closure), and
  the allocator. \<open>slotWrites\<close> records every assignment to \<open>Error.prepareStackTrace\<close>,
  oldest first. \<open>stackTraceLimit\<close> is the value of \<open>Error.stackTraceLimit\<close> when it is a
  number; when it is not, the host captures no stack, which is the \<open>Unavailable\<close> of the
  invocation.
\<close>

record state =
  prepareStackTrace :: hookval
  stackTraceLimit :: nat
  arrays :: "addr \<Rightarrow> callsite list option"
  cells :: "addr \<Rightarrow> addr option"
  nextAddr :: addr
  slotWrites :: "hookval list"

text \<open>
  One invocation, as the host sees it: the descriptor of the frame of the capture
  function itself, the descriptors of the frames that enclose the call (innermost
  first, so element 0 is the function that calls \<open>callsites()\<close>, at the position of
  that call), and the way the host's stack capture lets this call down, if it does.
\<close>

record invocation =
  self :: callsite
  callers :: "callsite list"
  fault :: "hostfault option"

section \<open>Array operations and state primitives\<close>

text \<open>\<open>Array.prototype.shift\<close>: removes and returns the first element; on an empty
  array it returns \<open>undefined\<close> and leaves the array empty.\<close>

definition shift :: "'a list \<Rightarrow> 'a option \<times> 'a list" where
  "shift xs = (case xs of [] \<Rightarrow> (None, []) | x # rest \<Rightarrow> (Some x, rest))"

text \<open>\<open>Array.prototype.slice(start)\<close> for a start index that is not negative: a new array
  with the elements from \<open>start\<close> on.\<close>

definition slice :: "nat \<Rightarrow> 'a list \<Rightarrow> 'a list" where
  "slice start xs = drop start xs"

definition allocArray :: "callsite list \<Rightarrow> state \<Rightarrow> addr \<times> state" where
  "allocArray xs s =
     (nextAddr s, s\<lparr>arrays := (arrays s)(nextAddr s \<mapsto> xs), nextAddr := Suc (nextAddr s)\<rparr>)"

definition allocClosure :: "addr \<Rightarrow> state \<Rightarrow> addr \<times> state" where
  "allocClosure v s =
     (nextAddr s, s\<lparr>cells := (cells s)(nextAddr s \<mapsto> v), nextAddr := Suc (nextAddr s)\<rparr>)"

text \<open>The assignment \<open>Error.prepareStackTrace = v\<close>. The slot is the ordinary writable
  property it is in every process that has not frozen or redefined it; on a slot
  made read-only the assignment would throw in this strict-mode module, and no
  statement below speaks about that case.\<close>

definition setPrepareStackTrace :: "hookval \<Rightarrow> state \<Rightarrow> state" where
  "setPrepareStackTrace v s = s\<lparr>prepareStackTrace := v, slotWrites := slotWrites s @ [v]\<rparr>"

text \<open>\<open>try { body } finally { fin }\<close> where \<open>fin\<close> is an assignment: \<open>fin\<close> runs after
  \<open>body\<close> whether \<open>body\<close> returned or threw, and the completion of \<open>body\<close> stands.\<close>

definition tryFinally ::
  "(state \<Rightarrow> (exn + 'a) \<times> state) \<Rightarrow> (state \<Rightarrow> state) \<Rightarrow> state \<Rightarrow> (exn + 'a) \<times> state" where
  "tryFinally body fin s = (case body s of (r, s') \<Rightarrow> (r, fin s'))"

section \<open>The hooks\<close>

text \<open>
  \<^verbatim>\<open>const prepareStackTraceHandler = (_, callSites) => { callSites.shift(); return callSites; };\<close>
  The array is changed in place and the same reference is returned.
\<close>

definition prepareStackTraceHandler :: "'e \<Rightarrow> addr \<Rightarrow> state \<Rightarrow> (exn + jsval) \<times> state" where
  "prepareStackTraceHandler e callSites s =
     (case arrays s callSites of
        None \<Rightarrow> (Inl TypeError, s)
      | Some xs \<Rightarrow>
          (Inr (ArrayRef callSites), s\<lparr>arrays := (arrays s)(callSites \<mapsto> snd (shift xs))\<rparr>))"

text \<open>
  The closure of the original variant, created at address \<open>c\<close>:
  \<^verbatim>\<open>(_, callSites) => { const callSitesWithoutCurrent = callSites.slice(1);
       result = callSitesWithoutCurrent; return callSitesWithoutCurrent; }\<close>
  The argument array is left as it is; a new array is allocated and stored in the
  captured variable \<open>result\<close>.
\<close>

definition originalHook :: "addr \<Rightarrow> 'e \<Rightarrow> addr \<Rightarrow> state \<Rightarrow> (exn + jsval) \<times> state" where
  "originalHook c e callSites s =
     (case arrays s callSites of
        None \<Rightarrow> (Inl TypeError, s)
      | Some xs \<Rightarrow>
          (case allocArray (slice 1 xs) s of
             (callSitesWithoutCurrent, s1) \<Rightarrow>
               (Inr (ArrayRef callSitesWithoutCurrent),
                s1\<lparr>cells := (cells s1)(c \<mapsto> callSitesWithoutCurrent)\<rparr>)))"

section \<open>The host runtime\<close>

text \<open>The error value the host constructs for \<open>new Error()\<close> and hands to the hook.\<close>

datatype errorval = NewError

text \<open>
  Modelled from the spec: the host's call of the installed hook, which is the runtime's
  and not in the repository. The host calls whatever function the slot holds with the
  error value and the raw array. Only the two hooks of this repository have a body
  here; with no hook, or with a foreign one, the \<open>stack\<close> property is a value outside
  the module. Both variants install their own hook before they read \<open>stack\<close>, so they
  never take those branches.
\<close>

fun callHook :: "hookval \<Rightarrow> errorval \<Rightarrow> addr \<Rightarrow> state \<Rightarrow> (exn + jsval) \<times> state" where
  "callHook Handler e a s = prepareStackTraceHandler e a s"
| "callHook (Closure c) e a s = originalHook c e a s"
| "callHook NoHook e a s = (Inr Opaque, s)"
| "callHook (Foreign n) e a s = (Inr Opaque, s)"

text \<open>
  Modelled from the spec: the host's stack materialisation, \<open>new Error().stack\<close>, which
  is the runtime's and not in the repository. Reading the property makes the runtime
  call the installed hook, synchronously, with the error value and a fresh array of
  the call-site descriptors of the current call stack, innermost frame first (the
  source's comment: V8 calls prepareStackTrace with (error, callSites) and the value
  the hook returns is the value of \<open>stack\<close>). The host captures at most
  \<open>Error.stackTraceLimit\<close> frames (the captured-frame limit of the specification's design
  notes). A failure of the host is raised before any hook runs; a host that captures
  no stack calls no hook and yields \<open>undefined\<close>.
\<close>

definition newErrorStack ::
  "callsite list \<Rightarrow> hostfault option \<Rightarrow> state \<Rightarrow> (exn + jsval) \<times> state" where
  "newErrorStack stack flt s =
     (case flt of
        Some (Raises x) \<Rightarrow> (Inl x, s)
      | Some Unavailable \<Rightarrow> (Inr Undefined, s)
      | None \<Rightarrow>
          (case allocArray (take (stackTraceLimit s) stack) s of
             (raw, s1) \<Rightarrow> callHook (prepareStackTrace s1) NewError raw s1))"

section \<open>The capture operation\<close>

text \<open>
  \<^verbatim>\<open>export default function callsites() {
    const originalPrepareStackTrace = Error.prepareStackTrace;
    try {
      Error.prepareStackTrace = prepareStackTraceHandler;
      return new Error().stack;
    } finally {
      Error.prepareStackTrace = originalPrepareStackTrace;
    }
  }\<close>
  While \<open>new Error()\<close> runs, the innermost frame is the one of \<open>callsites\<close> itself.
\<close>

definition callsites :: "invocation \<Rightarrow> state \<Rightarrow> (exn + jsval) \<times> state" where
  "callsites i s =
     (let originalPrepareStackTrace = prepareStackTrace s in
      tryFinally
        (\<lambda>s0. newErrorStack (self i # callers i) (fault i)
                 (setPrepareStackTrace Handler s0))
        (setPrepareStackTrace originalPrepareStackTrace) s)"

text \<open>
  The original variant, as the report quotes it:
  \<^verbatim>\<open>export default function callsites() {
    const _prepareStackTrace = Error.prepareStackTrace;
    try {
      let result = [];
      Error.prepareStackTrace = (_, callSites) => { ... };
      new Error().stack;
      return result;
    } finally {
      Error.prepareStackTrace = _prepareStackTrace;
    }
  }\<close>
  The value of \<open>stack\<close> is dropped and the variable \<open>result\<close> is returned. The source's
  \<open>_prepareStackTrace\<close> is written \<open>prepareStackTrace'\<close>.
\<close>

definition callsitesOriginal :: "invocation \<Rightarrow> state \<Rightarrow> (exn + jsval) \<times> state" where
  "callsitesOriginal i s =
     (let prepareStackTrace' = prepareStackTrace s in
      tryFinally
        (\<lambda>s0.
           case allocArray [] s0 of (result, s1) \<Rightarrow>
           case allocClosure result s1 of (c, s2) \<Rightarrow>
           case newErrorStack (self i # callers i) (fault i)
                  (setPrepareStackTrace (Closure c) s2) of
             (Inl x, s3) \<Rightarrow> (Inl x, s3)
           | (Inr v, s3) \<Rightarrow>
               (case cells s3 c of
                  Some r \<Rightarrow> (Inr (ArrayRef r), s3)
                | None \<Rightarrow> (Inr Opaque, s3)))
        (setPrepareStackTrace prepareStackTrace') s)"

text \<open>The StackSnapshot a call returned: the contents of the returned array in the
  state the call left, or nothing when the call threw or returned no array.\<close>

definition snapshot :: "(exn + jsval) \<times> state \<Rightarrow> callsite list option" where
  "snapshot out =
     (case fst out of
        Inr (ArrayRef a) \<Rightarrow> arrays (snd out) a
      | Inr Undefined \<Rightarrow> None
      | Inr Opaque \<Rightarrow> None
      | Inl x \<Rightarrow> None)"

section \<open>Observations\<close>

text \<open>The assignments to \<open>Error.prepareStackTrace\<close> that one run of an operation makes,
  in order.\<close>

definition writesOf :: "(state \<Rightarrow> (exn + jsval) \<times> state) \<Rightarrow> state \<Rightarrow> hookval list" where
  "writesOf oper s = drop (length (slotWrites s)) (slotWrites (snd (oper s)))"

text \<open>What a caller can see of a call: the exception, or the returned snapshot.\<close>

definition observable :: "(exn + jsval) \<times> state \<Rightarrow> exn + callsite list option" where
  "observable out = (case fst out of Inl x \<Rightarrow> Inl x | Inr v \<Rightarrow> Inr (snapshot out))"



section \<open>Concrete inputs\<close>

text \<open>
  The scenario of the specification: \<open>function a(){ return capture(); }\<close> called from
  \<open>function root(){ return a(); }\<close>, in a fresh process (no hook installed, the host's
  default limit of ten frames); and the ten nested functions of the benchmark's deep
  call stack.
\<close>

definition exFrame :: "string \<Rightarrow> nat \<Rightarrow> nat \<Rightarrow> callsite" where
  "exFrame f l c = \<lparr>getFunctionName = Some f, getFileName = Some ''app.js'',
                     getLineNumber = Some l, getColumnNumber = Some c\<rparr>"

definition exSelf :: callsite where
  "exSelf = \<lparr>getFunctionName = Some ''callsites'', getFileName = Some ''index.js'',
             getLineNumber = Some 20, getColumnNumber = Some 10\<rparr>"

definition exState :: state where
  "exState = \<lparr>prepareStackTrace = NoHook, stackTraceLimit = 10, arrays = Map.empty,
              cells = Map.empty, nextAddr = 0, slotWrites = []\<rparr>"

definition exCall :: invocation where
  "exCall = \<lparr>self = exSelf, callers = [exFrame ''a'' 1 25, exFrame ''root'' 2 28],
             fault = None\<rparr>"


definition exDeepCall :: invocation where
  "exDeepCall = \<lparr>self = exSelf,
     callers = map (\<lambda>n. exFrame ''deepStackOpt'' n 36) [10, 9, 8, 7, 6, 5, 4, 3, 2, 1],
     fault = None\<rparr>"

section \<open>What a call computes\<close>

text \<open>The hook drops the head of what the host captured: of the frame of the capture
  function followed by its callers, cut at the limit, the callers below the limit remain.\<close>

lemma tail_of_capture: "snd (shift (take n (x # xs))) = take (n - 1) xs"
  by (cases n) (simp_all add: shift_def)

lemma slice_of_capture: "slice (Suc 0) (take n (x # xs)) = take (n - Suc 0) xs"
  by (cases n) (simp_all add: slice_def)

lemma callsites_returns:
  assumes "fault i = None"
  shows "callsites i s =
    (Inr (ArrayRef (nextAddr s)),
     s\<lparr>arrays := (arrays s)(nextAddr s \<mapsto> take (stackTraceLimit s - 1) (callers i)),
       nextAddr := Suc (nextAddr s),
       slotWrites := slotWrites s @ [Handler, prepareStackTrace s]\<rparr>)"
  using assms
  by (simp add: callsites_def tryFinally_def newErrorStack_def allocArray_def
      setPrepareStackTrace_def prepareStackTraceHandler_def tail_of_capture)

lemma callsites_throws:
  assumes "fault i = Some (Raises x)"
  shows "callsites i s =
    (Inl x, s\<lparr>slotWrites := slotWrites s @ [Handler, prepareStackTrace s]\<rparr>)"
  using assms
  by (simp add: callsites_def tryFinally_def newErrorStack_def setPrepareStackTrace_def)

lemma callsites_unavailable:
  assumes "fault i = Some Unavailable"
  shows "callsites i s =
    (Inr Undefined, s\<lparr>slotWrites := slotWrites s @ [Handler, prepareStackTrace s]\<rparr>)"
  using assms
  by (simp add: callsites_def tryFinally_def newErrorStack_def setPrepareStackTrace_def)

lemma fault_cases:
  obtains (Captures) "fault i = None"
  | (Throws) x where "fault i = Some (Raises x)"
  | (NoStack) "fault i = Some Unavailable"
proof (cases "fault i")
  case None
  then show ?thesis by (rule Captures)
next
  case (Some h)
  then show ?thesis by (cases h) (auto intro: Throws NoStack)
qed

lemma callsitesOriginal_returns:
  assumes "fault i = None"
  shows "callsitesOriginal i s =
    (Inr (ArrayRef (nextAddr s + 3)),
     s\<lparr>arrays := (arrays s)(nextAddr s \<mapsto> [],
                             nextAddr s + 2 \<mapsto> take (stackTraceLimit s) (self i # callers i),
                             nextAddr s + 3 \<mapsto> take (stackTraceLimit s - 1) (callers i)),
       cells := (cells s)(nextAddr s + 1 \<mapsto> nextAddr s + 3),
       nextAddr := nextAddr s + 4,
       slotWrites := slotWrites s @ [Closure (nextAddr s + 1), prepareStackTrace s]\<rparr>)"
  using assms
  by (simp add: callsitesOriginal_def tryFinally_def newErrorStack_def allocArray_def
      allocClosure_def setPrepareStackTrace_def originalHook_def slice_of_capture
      eval_nat_numeral)

lemma callsitesOriginal_throws:
  assumes "fault i = Some (Raises x)"
  shows "callsitesOriginal i s =
    (Inl x, s\<lparr>arrays := (arrays s)(nextAddr s \<mapsto> []),
       cells := (cells s)(nextAddr s + 1 \<mapsto> nextAddr s),
       nextAddr := nextAddr s + 2,
       slotWrites := slotWrites s @ [Closure (nextAddr s + 1), prepareStackTrace s]\<rparr>)"
  using assms
  by (simp add: callsitesOriginal_def tryFinally_def newErrorStack_def allocArray_def
      allocClosure_def setPrepareStackTrace_def eval_nat_numeral)

lemma callsitesOriginal_unavailable:
  assumes "fault i = Some Unavailable"
  shows "callsitesOriginal i s =
    (Inr (ArrayRef (nextAddr s)),
     s\<lparr>arrays := (arrays s)(nextAddr s \<mapsto> []),
       cells := (cells s)(nextAddr s + 1 \<mapsto> nextAddr s),
       nextAddr := nextAddr s + 2,
       slotWrites := slotWrites s @ [Closure (nextAddr s + 1), prepareStackTrace s]\<rparr>)"
  using assms
  by (simp add: callsitesOriginal_def tryFinally_def newErrorStack_def allocArray_def
      allocClosure_def setPrepareStackTrace_def eval_nat_numeral)

lemma snapshot_callsites:
  "fault i = None \<Longrightarrow>
   snapshot (callsites i s) = Some (take (stackTraceLimit s - 1) (callers i))"
  by (simp add: callsites_returns snapshot_def)

lemma snapshot_callsitesOriginal:
  "fault i = None \<Longrightarrow>
   snapshot (callsitesOriginal i s) = Some (take (stackTraceLimit s - 1) (callers i))"
  by (simp add: callsitesOriginal_returns snapshot_def)

section \<open>The installed hook\<close>

text \<open>
  C3. Whatever the error value, the hook applied to an array holding the descriptors
  \<open>xs\<close> returns the reference it was given, and the only change to the state is that
  this array now holds \<open>xs\<close> without its first element: the other descriptors are the
  ones the runtime supplied, in the same order.
\<close>

theorem handler_shifts_in_place:
  "arrays s l = Some xs \<Longrightarrow>
   prepareStackTraceHandler e l s =
     (Inr (ArrayRef l), s\<lparr>arrays := (arrays s)(l \<mapsto> drop 1 xs)\<rparr>)"
  by (cases xs) (simp_all add: prepareStackTraceHandler_def shift_def)

theorem handler_shifts_in_place_witness:
  "prepareStackTraceHandler NewError 0
     (exState\<lparr>arrays := [0 \<mapsto> exSelf # callers exCall]\<rparr>) =
   (Inr (ArrayRef 0), exState\<lparr>arrays := [0 \<mapsto> callers exCall]\<rparr>)"
  using handler_shifts_in_place
    [where s = "exState\<lparr>arrays := [0 \<mapsto> exSelf # callers exCall]\<rparr>"
      and l = 0 and xs = "exSelf # callers exCall" and e = NewError]
  by simp

text \<open>
  C9. On an empty array the hook does not fail: it returns the reference it was given
  and leaves the state as it was. When the host captures no frame (a limit of zero),
  \<open>callsites()\<close> returns an empty snapshot and does not throw.
\<close>

theorem handler_total_on_empty:
  "(arrays s l = Some [] \<longrightarrow> prepareStackTraceHandler e l s = (Inr (ArrayRef l), s)) \<and>
   (fault i = None \<and> stackTraceLimit s = 0 \<longrightarrow>
      fst (callsites i s) = Inr (ArrayRef (nextAddr s)) \<and> snapshot (callsites i s) = Some [])"
  by (simp add: prepareStackTraceHandler_def shift_def map_upd_triv callsites_returns
      snapshot_def)

theorem handler_total_on_empty_witness:
  "prepareStackTraceHandler NewError 0 (exState\<lparr>arrays := [0 \<mapsto> []]\<rparr>) =
     (Inr (ArrayRef 0), exState\<lparr>arrays := [0 \<mapsto> []]\<rparr>) \<and>
   snapshot (callsites exCall (exState\<lparr>stackTraceLimit := 0\<rparr>)) = Some []"
  using handler_total_on_empty
      [where s = "exState\<lparr>arrays := [0 \<mapsto> []]\<rparr>" and l = 0 and e = NewError and i = exCall]
    handler_total_on_empty
      [where s = "exState\<lparr>stackTraceLimit := 0\<rparr>" and l = 0 and e = NewError and i = exCall]
  by (simp add: exCall_def)

text \<open>
  C10. The result of the hook, and the state it leaves, do not depend on the error
  value: two calls that differ only in their first argument agree.
\<close>

theorem handler_ignores_error_value:
  "prepareStackTraceHandler e1 l s = prepareStackTraceHandler e2 l s"
  by (simp add: prepareStackTraceHandler_def)

section \<open>The hook slot\<close>

text \<open>
  C2. After \<open>callsites()\<close>, whether it returned or threw, \<open>Error.prepareStackTrace\<close> holds
  the very value it held before the call, \<open>undefined\<close> included.
\<close>

theorem hook_slot_restored:
  "prepareStackTrace (snd (callsites i s)) = prepareStackTrace s"
  by (cases i rule: fault_cases)
     (simp_all add: callsites_returns callsites_throws callsites_unavailable)

text \<open>
  C7. In any two invocations the value \<open>callsites()\<close> writes into the slot is the same
  one, the module's \<open>prepareStackTraceHandler\<close>, followed by the value it restores; no
  closure is created by a call.
\<close>

theorem same_handler_installed:
  "writesOf (callsites i1) s1 = [Handler, prepareStackTrace s1] \<and>
   writesOf (callsites i2) s2 = [Handler, prepareStackTrace s2] \<and>
   cells (snd (callsites i1 s1)) = cells s1 \<and> cells (snd (callsites i2 s2)) = cells s2"
proof -
  have "writesOf (callsites i) s = [Handler, prepareStackTrace s] \<and>
        cells (snd (callsites i s)) = cells s" for i s
    by (cases i rule: fault_cases)
       (simp_all add: writesOf_def callsites_returns callsites_throws callsites_unavailable)
  then show ?thesis by simp
qed

text \<open>The original variant, for contrast, installs the closure it has just created.\<close>

lemma original_installs_fresh_closure:
  "writesOf (callsitesOriginal i) s = [Closure (nextAddr s + 1), prepareStackTrace s]"
  by (cases i rule: fault_cases)
     (simp_all add: writesOf_def callsitesOriginal_returns callsitesOriginal_throws
        callsitesOriginal_unavailable)

section \<open>Failures\<close>

text \<open>
  C8. When the host raises \<open>x\<close> while it materialises the stack, \<open>callsites()\<close> throws \<open>x\<close>
  itself, neither caught nor wrapped, and apart from the two assignments to the slot
  (the installation and the restoration) the state is the one before the call.
\<close>

theorem host_failure_propagates:
  "fault i = Some (Raises x) \<Longrightarrow>
   callsites i s =
     (Inl x, s\<lparr>slotWrites := slotWrites s @ [Handler, prepareStackTrace s]\<rparr>)"
  by (rule callsites_throws)

theorem host_failure_propagates_witness:
  "callsites (exCall\<lparr>fault := Some (Raises (HostFailure 7))\<rparr>) exState =
     (Inl (HostFailure 7), exState\<lparr>slotWrites := [Handler, NoHook]\<rparr>)"
  using host_failure_propagates
    [where i = "exCall\<lparr>fault := Some (Raises (HostFailure 7))\<rparr>" and x = "HostFailure 7"
      and s = exState]
  by (simp add: exState_def)

section \<open>The returned snapshot\<close>

text \<open>
  C1, as stated, fails when the host captures fewer than two frames. With
  \<open>Error.stackTraceLimit = 1\<close> the host hands the hook the frame of \<open>callsites\<close> alone,
  the hook removes it, and the call made directly from \<open>a\<close> returns an empty snapshot:
  there is no element at index 0.
\<close>

theorem no_caller_at_index_zero_counterexample:
  "fault exCall = None \<and> callers exCall = [exFrame ''a'' 1 25, exFrame ''root'' 2 28] \<and>
   snapshot (callsites exCall (exState\<lparr>stackTraceLimit := 1\<rparr>)) = Some []"
  by (simp add: snapshot_callsites exCall_def)

text \<open>
  C1, amended. For every invocation made directly from a function with frame \<open>F\<close> that
  returns, the snapshot is an initial segment of the enclosing frames, so none of its
  elements is at the position of the frame of \<open>callsites\<close> (and none equals its
  descriptor, when no enclosing frame does); and when the host captures at least two
  frames, the element at index 0 is \<open>F\<close>.
\<close>

theorem first_element_is_caller:
  assumes "fault i = None" and "callers i = F # rest"
  shows "\<exists>xs. snapshot (callsites i s) = Some xs \<and>
           xs = take (length xs) (callers i) \<and>
           (2 \<le> stackTraceLimit s \<longrightarrow> xs \<noteq> [] \<and> xs ! 0 = F) \<and>
           (self i \<notin> set (callers i) \<longrightarrow> self i \<notin> set xs)"
proof -
  let ?xs = "take (stackTraceLimit s - 1) (callers i)"
  have "snapshot (callsites i s) = Some ?xs"
    using assms(1) by (rule snapshot_callsites)
  moreover have "?xs = take (length ?xs) (callers i)"
    by (simp add: min_def)
  moreover have "2 \<le> stackTraceLimit s \<longrightarrow> ?xs \<noteq> [] \<and> ?xs ! 0 = F"
    using assms(2) by (cases "stackTraceLimit s - 1") auto
  moreover have "self i \<notin> set (callers i) \<longrightarrow> self i \<notin> set ?xs"
    by (auto dest: in_set_takeD)
  ultimately show ?thesis by blast
qed

theorem first_element_is_caller_witness:
  "snapshot (callsites exCall exState) = Some [exFrame ''a'' 1 25, exFrame ''root'' 2 28] \<and>
   exSelf \<notin> set (callers exCall) \<and> (2::nat) \<le> stackTraceLimit exState"
  using first_element_is_caller [where i = exCall and F = "exFrame ''a'' 1 25"
      and rest = "[exFrame ''root'' 2 28]" and s = exState]
  by (simp add: snapshot_callsites exCall_def exState_def exSelf_def exFrame_def)

text \<open>
  C4, as stated, fails as soon as the depth reaches the host's limit. Under the
  default limit of ten frames, a call through ten nested functions (the deep call
  stack of the benchmark) returns nine descriptors, not ten: the host captures the
  frame of \<open>callsites\<close> and the nine innermost callers.
\<close>

theorem deep_stack_counterexample:
  "fault exDeepCall = None \<and> length (callers exDeepCall) = 10 \<and>
   stackTraceLimit exState = 10 \<and>
   map_option length (snapshot (callsites exDeepCall exState)) = Some 9"
  by (simp add: snapshot_callsites exDeepCall_def exState_def)

text \<open>
  C4, amended. For every invocation that returns, reached through \<open>D\<close> nested calls with
  \<open>D\<close> below the host's limit \<open>Error.stackTraceLimit\<close>, the snapshot has at least \<open>D\<close>
  elements and its first \<open>D\<close> elements are the \<open>D\<close> enclosing frames, innermost first.
\<close>

theorem nested_frames_within_limit:
  assumes "fault i = None" and "D \<le> length (callers i)" and "D < stackTraceLimit s"
  shows "\<exists>xs. snapshot (callsites i s) = Some xs \<and> D \<le> length xs \<and>
           take D xs = take D (callers i)"
proof -
  let ?xs = "take (stackTraceLimit s - 1) (callers i)"
  have "snapshot (callsites i s) = Some ?xs"
    using assms(1) by (rule snapshot_callsites)
  moreover have "D \<le> length ?xs"
    using assms(2,3) by simp
  moreover have "take D ?xs = take D (callers i)"
  proof -
    have "min D (stackTraceLimit s - 1) = D"
      using assms(3) by arith
    then show ?thesis by simp
  qed
  ultimately show ?thesis by blast
qed

theorem nested_frames_within_limit_witness:
  "snapshot (callsites exDeepCall (exState\<lparr>stackTraceLimit := 11\<rparr>))
     = Some (callers exDeepCall) \<and>
   length (callers exDeepCall) = 10"
  using nested_frames_within_limit [where i = exDeepCall and D = 10
      and s = "exState\<lparr>stackTraceLimit := 11\<rparr>"]
  by (simp add: snapshot_callsites exDeepCall_def)

section \<open>The two variants\<close>

lemma observable_callsites:
  "observable (callsites i s) =
     (case fault i of
        None \<Rightarrow> Inr (Some (take (stackTraceLimit s - 1) (callers i)))
      | Some (Raises x) \<Rightarrow> Inl x
      | Some Unavailable \<Rightarrow> Inr None)"
proof (cases i rule: fault_cases)
  case Captures
  then have "fst (callsites i s) = Inr (ArrayRef (nextAddr s))"
    by (simp add: callsites_returns)
  with Captures show ?thesis
    by (simp add: observable_def snapshot_callsites)
next
  case (Throws x)
  then show ?thesis
    by (simp add: observable_def callsites_throws)
next
  case NoStack
  then show ?thesis
    by (simp add: observable_def snapshot_def callsites_unavailable)
qed

lemma observable_callsitesOriginal:
  "observable (callsitesOriginal i s) =
     (case fault i of
        None \<Rightarrow> Inr (Some (take (stackTraceLimit s - 1) (callers i)))
      | Some (Raises x) \<Rightarrow> Inl x
      | Some Unavailable \<Rightarrow> Inr (Some []))"
proof (cases i rule: fault_cases)
  case Captures
  then have "fst (callsitesOriginal i s) = Inr (ArrayRef (nextAddr s + 3))"
    by (simp add: callsitesOriginal_returns)
  with Captures show ?thesis
    by (simp add: observable_def snapshot_callsitesOriginal)
next
  case (Throws x)
  then show ?thesis
    by (simp add: observable_def callsitesOriginal_throws)
next
  case NoStack
  then show ?thesis
    by (simp add: observable_def snapshot_def callsitesOriginal_unavailable)
qed

text \<open>
  C5, as stated, fails when the host captures no stack and so never calls the hook
  (\<open>Error.stackTraceLimit\<close> is not a number). The optimised variant returns the value
  of \<open>stack\<close>, which is \<open>undefined\<close>: no snapshot. The original variant returns its
  variable \<open>result\<close>, which still holds the empty array it was initialised with.
\<close>

theorem variants_differ_without_capture_counterexample:
  "observable (callsites (exCall\<lparr>fault := Some Unavailable\<rparr>) exState) = Inr None \<and>
   observable (callsitesOriginal (exCall\<lparr>fault := Some Unavailable\<rparr>) exState)
     = Inr (Some [])"
  by (simp add: observable_callsites observable_callsitesOriginal)

text \<open>
  C5, amended. Called from the same call stack, under the same limit and with the same
  behaviour of a host that does capture a stack, the original variant (a closure per
  call, \<open>slice(1)\<close>) and the optimised one (the one handler, \<open>shift()\<close>) give their
  callers the same thing: the same exception, or snapshots with the same descriptors
  in the same order. Their own frames and the rest of the state they start from may
  differ.
\<close>

theorem variants_return_same_snapshot:
  assumes "callers i1 = callers i2" and "fault i1 = fault i2"
    and "fault i2 \<noteq> Some Unavailable"
    and "stackTraceLimit s1 = stackTraceLimit s2"
  shows "observable (callsitesOriginal i1 s1) = observable (callsites i2 s2)"
  using assms
  by (cases i2 rule: fault_cases)
     (simp_all add: observable_callsites observable_callsitesOriginal)

theorem variants_return_same_snapshot_witness:
  "observable (callsitesOriginal exCall exState) = Inr (Some (callers exCall)) \<and>
   observable (callsites exCall exState) = Inr (Some (callers exCall)) \<and>
   fault exCall \<noteq> Some Unavailable"
proof -
  have "observable (callsites exCall exState) = Inr (Some (callers exCall))"
    by (simp add: observable_callsites exCall_def exState_def)
  moreover have "fault exCall \<noteq> Some Unavailable"
    by (simp add: exCall_def)
  ultimately show ?thesis
    using variants_return_same_snapshot [where ?i1.0 = exCall and ?i2.0 = exCall
      and ?s1.0 = exState and ?s2.0 = exState]
    by simp
qed

section \<open>Repeated calls\<close>





end
